theory Spec2Isabelle
  imports Main "HOL-Library.Sublist"
begin

section \<open>The conversation memory store: class ChatSession\<close>

text \<open>
  The store is a Durable Object over two SQL tables. Its methods are modelled as
  functions from the object's state to a result and the state after the call. A result
  is a sum: \<open>Inl\<close> carries what the method throws, \<open>Inr\<close> what it returns.

  The storage interface is the platform's: \<open>exec(query, ...bindings)\<close> takes one binding
  for each placeholder of the statement and throws when their numbers differ; its cursor
  has a method \<open>one()\<close>, which throws unless the result has exactly one row, and no
  method \<open>rows\<close>. SQL's \<open>length\<close> counts the characters before the first NUL.

  The object takes its calls one at a time: a call is one step from state to state.

  Numbers are unbounded integers: a JavaScript number and a 64-bit rowid both hold
  every value a conversation can reach.
\<close>

datatype Role = System | User | Assistant | Tool

text \<open>Interface MemoryMessage: \<open>id\<close> and \<open>ts\<close> are optional fields.\<close>

record MemoryMessage =
  msg_id :: "int option"
  role :: Role
  content :: string
  ts :: "int option"

text \<open>
  A row of table \<open>messages (id INTEGER PRIMARY KEY AUTOINCREMENT, role TEXT NOT NULL,
  content TEXT NOT NULL, ts INTEGER NOT NULL)\<close>.
\<close>

record Row =
  row_id :: int
  row_role :: Role
  row_content :: string
  row_ts :: int

text \<open>
  Table \<open>messages\<close>: its rows in the order of their insertion, and the largest rowid the
  table has ever held, which AUTOINCREMENT keeps (in \<open>sqlite_sequence\<close>) so that a new
  row gets that number plus one.
\<close>

record MessagesTable =
  rows :: "Row list"
  sqlite_sequence :: int

text \<open>
  The object: its field \<open>initialized\<close> and its storage. A table that has not been created
  is \<open>None\<close>. Table \<open>meta (k TEXT PRIMARY KEY, v TEXT)\<close> maps a key to its nullable value.
\<close>

record ChatSession =
  initialized :: bool
  messages :: "MessagesTable option"
  meta :: "(string \<rightharpoonup> string option) option"

datatype error = SqlError string | TypeError string | InferenceError string

text \<open>What \<open>getContext\<close> returns: \<open>{ summary, messages }\<close>.\<close>

record ContextView =
  summary :: string
  context_messages :: "MemoryMessage list"

subsection \<open>Bindings and cursors\<close>

text \<open>
  The values the source hands to \<open>exec\<close> after the query: the name of a role, a text, a
  number, or an array of such values. The source writes every call as
  \<open>exec(query, [a, b, ...])\<close>: one binding, which is an array.
\<close>

datatype binding = BRole Role | BText string | BInt int | BArray "binding list"

text \<open>
  The value a statement gets for a placeholder. The platform reads a binding that is no
  text, number or buffer as its string form, and the string form of an array of one
  element is that of the element: \<open>["a"]\<close> is read as \<open>"a"\<close>, and \<open>[18]\<close> as \<open>"18"\<close>, which
  \<open>LIMIT\<close> takes for 18.
\<close>

fun bound :: "binding \<Rightarrow> binding" where
  "bound (BArray [b]) = bound b"
| "bound b = b"

definition wrong_bindings :: error where
  "wrong_bindings = SqlError ''Wrong number of parameter bindings for SQL query.''"

text \<open>
  A cursor is modelled by the list of its result rows. \<open>cursor.one()\<close> returns the row of
  a result that has exactly one.
\<close>

definition cursor_one :: "'a list \<Rightarrow> error + 'a" where
  "cursor_one c =
     (case c of
        [] \<Rightarrow> Inl (SqlError ''Expected exactly one result from SQL query, but got no results.'')
      | [x] \<Rightarrow> Inr x
      | _ \<Rightarrow> Inl (SqlError ''Expected exactly one result from SQL query, but got multiple results.''))"

text \<open>\<open>cursor.rows()\<close>: the cursor has no such method, so the call throws a TypeError.\<close>

definition cursor_rows :: "'a list \<Rightarrow> error + 'a list" where
  "cursor_rows c = Inl (TypeError ''rows.rows is not a function'')"

subsection \<open>The SQL statements\<close>

text \<open>\<open>CREATE TABLE IF NOT EXISTS\<close>: an existing table is left as it is.\<close>

definition create_messages :: "MessagesTable option \<Rightarrow> MessagesTable option" where
  "create_messages t =
     (case t of None \<Rightarrow> Some \<lparr>rows = [], sqlite_sequence = 0\<rparr> | Some tbl \<Rightarrow> Some tbl)"

definition create_meta ::
  "(string \<rightharpoonup> string option) option \<Rightarrow> (string \<rightharpoonup> string option) option" where
  "create_meta t = (case t of None \<Rightarrow> Some Map.empty | Some m \<Rightarrow> Some m)"

text \<open>The insertion of one row, with the id that AUTOINCREMENT gives it.\<close>

definition insert_message ::
  "Role \<Rightarrow> string \<Rightarrow> int \<Rightarrow> MessagesTable \<Rightarrow> int \<times> MessagesTable" where
  "insert_message r c t tbl =
     (let i = sqlite_sequence tbl + 1
      in (i, \<lparr>rows = rows tbl @ [\<lparr>row_id = i, row_role = r, row_content = c, row_ts = t\<rparr>],
              sqlite_sequence = i\<rparr>))"

text \<open>
  \<open>INSERT INTO messages (role, content, ts) VALUES (?, ?, ?) RETURNING id\<close>: three
  placeholders. The result is the cursor over the returned id and the table after the
  insertion. Other values than a role, a text and a number do not reach the statement in
  this program.
\<close>

definition exec_insert ::
  "binding list \<Rightarrow> MessagesTable \<Rightarrow> error + int list \<times> MessagesTable" where
  "exec_insert bs tbl =
     (if length bs \<noteq> 3 then Inl wrong_bindings
      else case map bound bs of
             [BRole r, BText c, BInt t] \<Rightarrow>
               (let (i, tbl') = insert_message r c t tbl in Inr ([i], tbl'))
           | _ \<Rightarrow> Inl (SqlError ''datatype mismatch''))"

text \<open>\<open>LIMIT n\<close>: a negative \<open>n\<close> puts no bound on the number of rows.\<close>

definition sql_limit :: "int \<Rightarrow> 'a list \<Rightarrow> 'a list" where
  "sql_limit n xs = (if n < 0 then xs else take (nat n) xs)"

definition select_recent :: "int \<Rightarrow> MessagesTable \<Rightarrow> Row list" where
  "select_recent limit tbl = sql_limit limit (rev (sort_key row_id (rows tbl)))"

text \<open>
  \<open>SELECT id, role, content, ts FROM messages ORDER BY id DESC LIMIT ?\<close>: one placeholder.
\<close>

definition exec_select_recent :: "binding list \<Rightarrow> MessagesTable \<Rightarrow> error + Row list" where
  "exec_select_recent bs tbl =
     (if length bs \<noteq> 1 then Inl wrong_bindings
      else case map bound bs of
             [BInt n] \<Rightarrow> Inr (select_recent n tbl)
           | _ \<Rightarrow> Inl (SqlError ''datatype mismatch''))"

text \<open>A selected row read as a MemoryMessage.\<close>

definition row_message :: "Row \<Rightarrow> MemoryMessage" where
  "row_message r =
     \<lparr>msg_id = Some (row_id r), role = row_role r, content = row_content r,
      ts = Some (row_ts r)\<rparr>"

text \<open>
  \<open>SELECT v FROM meta WHERE k = 'summary'\<close>: no placeholder; the cursor over the values
  of the rows with that key, of which there is at most one.
\<close>

definition select_summary :: "(string \<rightharpoonup> string option) \<Rightarrow> string option list" where
  "select_summary m = (case m ''summary'' of None \<Rightarrow> [] | Some v \<Rightarrow> [v])"

text \<open>
  \<open>INSERT INTO meta (k, v) VALUES ('summary', ?) ON CONFLICT(k) DO UPDATE SET v = excluded.v\<close>:
  one placeholder.
\<close>

definition exec_upsert_summary ::
  "binding list \<Rightarrow> (string \<rightharpoonup> string option) \<Rightarrow> error + (string \<rightharpoonup> string option)" where
  "exec_upsert_summary bs m =
     (if length bs \<noteq> 1 then Inl wrong_bindings
      else case map bound bs of
             [BText t] \<Rightarrow> Inr (m(''summary'' \<mapsto> Some t))
           | _ \<Rightarrow> Inl (SqlError ''datatype mismatch''))"

text \<open>SQL's \<open>length\<close> of a text: the number of its characters before the first NUL.\<close>

definition sql_length :: "string \<Rightarrow> nat" where
  "sql_length s = length (takeWhile (\<lambda>c. c \<noteq> CHR 0x00) s)"

text \<open>
  \<open>SELECT SUM(length(content)) AS n FROM messages\<close>: no placeholder; one row, whose \<open>n\<close>
  is NULL when the table has no row.
\<close>

definition select_sum_length :: "MessagesTable \<Rightarrow> int option list" where
  "select_sum_length tbl =
     [if rows tbl = [] then None
      else Some (sum_list (map (\<lambda>r. int (sql_length (row_content r))) (rows tbl)))]"

subsection \<open>The methods\<close>

definition ensureSchema :: "ChatSession \<Rightarrow> ChatSession" where
  "ensureSchema s =
     (if initialized s then s
      else s\<lparr>messages := create_messages (messages s),
             meta := create_meta (meta s),
             initialized := True\<rparr>)"

text \<open>
  \<open>append(msg)\<close>; \<open>now\<close> is what \<open>Date.now()\<close> reads, used when \<open>msg.ts\<close> is absent. The
  source calls \<open>exec(query, [msg.role, msg.content, ts])\<close>.
\<close>

definition append_msg ::
  "int \<Rightarrow> MemoryMessage \<Rightarrow> ChatSession \<Rightarrow> (error + int) \<times> ChatSession" where
  "append_msg now msg s0 =
     (let s = ensureSchema s0;
          t = (case ts msg of None \<Rightarrow> now | Some x \<Rightarrow> x)
      in case messages s of
           None \<Rightarrow> (Inl (SqlError ''no such table: messages''), s)
         | Some tbl \<Rightarrow>
             (case exec_insert [BArray [BRole (role msg), BText (content msg), BInt t]] tbl of
                Inl e \<Rightarrow> (Inl e, s)
              | Inr (res, tbl') \<Rightarrow>
                  (case cursor_one res of
                     Inl e \<Rightarrow> (Inl e, s\<lparr>messages := Some tbl'\<rparr>)
                   | Inr inserted \<Rightarrow> (Inr inserted, s\<lparr>messages := Some tbl'\<rparr>))))"

text \<open>
  The summary read of \<open>getContext\<close>: \<open>summaryRow.one()?.v ?? ""\<close> on the cursor of the
  summary query.
\<close>

definition read_summary :: "(string \<rightharpoonup> string option) \<Rightarrow> error + string" where
  "read_summary m =
     (case cursor_one (select_summary m) of
        Inl e \<Rightarrow> Inl e
      | Inr v \<Rightarrow> Inr (case v of None \<Rightarrow> '''' | Some t \<Rightarrow> t))"

text \<open>
  \<open>getContext(limit)\<close>, for an integer \<open>limit\<close>; callers that pass no limit get 18. The
  source calls \<open>exec(query, [limit])\<close>, then \<open>rows.rows().reverse()\<close>.
\<close>

definition getContext :: "int \<Rightarrow> ChatSession \<Rightarrow> (error + ContextView) \<times> ChatSession" where
  "getContext limit s0 =
     (let s = ensureSchema s0
      in case messages s of
           None \<Rightarrow> (Inl (SqlError ''no such table: messages''), s)
         | Some tbl \<Rightarrow>
             (case exec_select_recent [BArray [BInt limit]] tbl of
                Inl e \<Rightarrow> (Inl e, s)
              | Inr res \<Rightarrow>
                  (case cursor_rows res of
                     Inl e \<Rightarrow> (Inl e, s)
                   | Inr selected \<Rightarrow>
                       (let recent = rev (map row_message selected)
                        in case meta s of
                             None \<Rightarrow> (Inl (SqlError ''no such table: meta''), s)
                           | Some m \<Rightarrow>
                               (case read_summary m of
                                  Inl e \<Rightarrow> (Inl e, s)
                                | Inr summ \<Rightarrow>
                                    (Inr \<lparr>summary = summ, context_messages = recent\<rparr>,
                                     s))))))"

text \<open>\<open>setSummary(summary)\<close>; the source calls \<open>exec(query, [summary])\<close>.\<close>

definition setSummary :: "string \<Rightarrow> ChatSession \<Rightarrow> (error + unit) \<times> ChatSession" where
  "setSummary summ s0 =
     (let s = ensureSchema s0
      in case meta s of
           None \<Rightarrow> (Inl (SqlError ''no such table: meta''), s)
         | Some m \<Rightarrow>
             (case exec_upsert_summary [BArray [BText summ]] m of
                Inl e \<Rightarrow> (Inl e, s)
              | Inr m' \<Rightarrow> (Inr (), s\<lparr>meta := Some m'\<rparr>)))"

text \<open>\<open>approxChars()\<close>: \<open>res.one()?.n ?? 0\<close> on the cursor of the sum query.\<close>

definition approxChars :: "ChatSession \<Rightarrow> (error + int) \<times> ChatSession" where
  "approxChars s0 =
     (let s = ensureSchema s0
      in case messages s of
           None \<Rightarrow> (Inl (SqlError ''no such table: messages''), s)
         | Some tbl \<Rightarrow>
             (case cursor_one (select_sum_length tbl) of
                Inl e \<Rightarrow> (Inl e, s)
              | Inr n \<Rightarrow> (Inr (case n of None \<Rightarrow> 0 | Some k \<Rightarrow> k), s)))"

subsection \<open>Histories of one conversation\<close>

text \<open>
  A new Durable Object has no table and \<open>initialized = false\<close>. The platform may discard
  the object and construct it again over the same storage, which runs the field
  initializer again: \<open>restart\<close>.
\<close>

definition fresh :: ChatSession where
  "fresh = \<lparr>initialized = False, messages = None, meta = None\<rparr>"

definition restart :: "ChatSession \<Rightarrow> ChatSession" where
  "restart s = s\<lparr>initialized := False\<rparr>"

datatype op =
    Append int MemoryMessage
  | GetContext int
  | SetSummary string
  | ApproxChars
  | Restart

fun exec :: "op \<Rightarrow> ChatSession \<Rightarrow> ChatSession" where
  "exec (Append now msg) s = snd (append_msg now msg s)"
| "exec (GetContext limit) s = snd (getContext limit s)"
| "exec (SetSummary summ) s = snd (setSummary summ s)"
| "exec ApproxChars s = snd (approxChars s)"
| "exec Restart s = restart s"

definition run_ops :: "op list \<Rightarrow> ChatSession \<Rightarrow> ChatSession" where
  "run_ops ops s = foldl (\<lambda>s' x. exec x s') s ops"

text \<open>What each call of a history returns to its caller (\<open>Restart\<close> is no call).\<close>

datatype reply =
    Appended "error + int"
  | GotContext "error + ContextView"
  | SummarySet "error + unit"
  | Chars "error + int"

fun replies :: "op list \<Rightarrow> ChatSession \<Rightarrow> reply list" where
  "replies [] s = []"
| "replies (Append now msg # ops) s =
     Appended (fst (append_msg now msg s)) # replies ops (exec (Append now msg) s)"
| "replies (GetContext limit # ops) s =
     GotContext (fst (getContext limit s)) # replies ops (exec (GetContext limit) s)"
| "replies (SetSummary summ # ops) s =
     SummarySet (fst (setSummary summ s)) # replies ops (exec (SetSummary summ) s)"
| "replies (ApproxChars # ops) s =
     Chars (fst (approxChars s)) # replies ops (exec ApproxChars s)"
| "replies (Restart # ops) s = replies ops (exec Restart s)"

text \<open>The results of the \<open>append\<close> calls among the replies.\<close>

fun append_replies :: "reply list \<Rightarrow> (error + int) list" where
  "append_replies [] = []"
| "append_replies (Appended r # rs) = r # append_replies rs"
| "append_replies (x # rs) = append_replies rs"

text \<open>The messages a history hands to \<open>append\<close>, each with the clock reading of its call.\<close>

fun appended :: "op list \<Rightarrow> (int \<times> MemoryMessage) list" where
  "appended [] = []"
| "appended (Append now msg # ops) = (now, msg) # appended ops"
| "appended (x # ops) = appended ops"

text \<open>The history that calls \<open>append\<close> on the given messages, one call for each.\<close>

definition append_all :: "(int \<times> MemoryMessage) list \<Rightarrow> op list" where
  "append_all ms = map (\<lambda>a. Append (fst a) (snd a)) ms"

text \<open>The text of the last \<open>setSummary\<close> of a history, if there is one.\<close>

fun last_set :: "op list \<Rightarrow> string option" where
  "last_set [] = None"
| "last_set (SetSummary summ # ops) =
     (case last_set ops of None \<Rightarrow> Some summ | Some t \<Rightarrow> Some t)"
| "last_set (x # ops) = last_set ops"

text \<open>The message log of a state: the rows of table \<open>messages\<close>, none when it is absent.\<close>

definition message_log :: "ChatSession \<Rightarrow> Row list" where
  "message_log s = (case messages s of None \<Rightarrow> [] | Some tbl \<Rightarrow> rows tbl)"

text \<open>The value of the summary row of a state, if the table and the row exist.\<close>

definition summary_row :: "ChatSession \<Rightarrow> string option option" where
  "summary_row s = (case meta s of None \<Rightarrow> None | Some m \<Rightarrow> m ''summary'')"

text \<open>
  The state a history leaves, once the schema is ensured: no append of the history has
  stored a row, and the summary row holds the text last set.
\<close>

definition state_of :: "op list \<Rightarrow> ChatSession" where
  "state_of ops =
     \<lparr>initialized = True,
      messages = Some \<lparr>rows = [], sqlite_sequence = 0\<rparr>,
      meta = Some (case last_set ops of
                     None \<Rightarrow> Map.empty
                   | Some t \<Rightarrow> [''summary'' \<mapsto> Some t])\<rparr>"

text \<open>The total that \<open>approxChars\<close> computes over a table.\<close>

definition total_length :: "MessagesTable \<Rightarrow> int" where
  "total_length tbl = sum_list (map (\<lambda>r. int (sql_length (row_content r))) (rows tbl))"

section \<open>The worker and the workflow\<close>

subsection \<open>Collaborators\<close>

text \<open>
  \<open>env.CHAT_SESSIONS\<close> gives one ChatSession for each name; a call through the stub acts
  on that session alone.

  \<open>env.AI.run(model, { messages, max_tokens })\<close> is a parameter of the model: a function
  of the model name, the messages and the optional \<open>max_tokens\<close>, which throws (\<open>Inl\<close>)
  or returns nothing or an object that may hold a text \<open>response\<close> and may hold an
  array \<open>messages\<close>. \<open>JSON.stringify\<close> and the readings of \<open>Date.now()\<close> are parameters
  as well.
\<close>

type_synonym Namespace = "string \<Rightarrow> ChatSession"

type_synonym 'a effect = "Namespace \<Rightarrow> (error + 'a) \<times> Namespace"

record AiResult =
  response :: "string option"
  result_messages :: "MemoryMessage list option"

type_synonym Ai = "string \<Rightarrow> MemoryMessage list \<Rightarrow> nat option \<Rightarrow> error + AiResult option"

text \<open>\<open>const a = await f; g(a)\<close>: what \<open>f\<close> throws ends the computation.\<close>

definition await :: "'a effect \<Rightarrow> ('a \<Rightarrow> 'b effect) \<Rightarrow> 'b effect" where
  "await f g w = (case f w of (Inl e, w') \<Rightarrow> (Inl e, w') | (Inr a, w') \<Rightarrow> g a w')"

definition return :: "'a \<Rightarrow> 'a effect" where
  "return a w = (Inr a, w)"

definition call ::
  "string \<Rightarrow> (ChatSession \<Rightarrow> (error + 'a) \<times> ChatSession) \<Rightarrow> 'a effect" where
  "call name f w = (let (r, s') = f (w name) in (r, w(name := s')))"

text \<open>The name of a room's session: \<open>`room:${roomId}`\<close>.\<close>

definition room_name :: "string \<Rightarrow> string" where
  "room_name r = ''room:'' @ r"

definition ai_run ::
  "Ai \<Rightarrow> string \<Rightarrow> MemoryMessage list \<Rightarrow> nat option \<Rightarrow> (AiResult option) effect" where
  "ai_run ai m msgs max_tokens w = (ai m msgs max_tokens, w)"

subsection \<open>Assembling the prompt\<close>

text \<open>An object literal \<open>{ role, content }\<close>.\<close>

definition entry :: "Role \<Rightarrow> string \<Rightarrow> MemoryMessage" where
  "entry r c = \<lparr>msg_id = None, role = r, content = c, ts = None\<rparr>"

definition systemPreamble :: "MemoryMessage list" where
  "systemPreamble =
     [entry System ''You are a concise, friendly assistant. Keep answers helpful and safe.'']"

text \<open>\<open>summary ? [{ role: "system", content: `Conversation memory: ${summary}` }] : []\<close>.\<close>

definition memory :: "string \<Rightarrow> MemoryMessage list" where
  "memory summ =
     (if summ \<noteq> [] then [entry System (''Conversation memory: '' @ summ)] else [])"

definition default_model :: string where
  "default_model = ''@cf/meta/llama-3.3-70b-instruct-fp8-fast''"

text \<open>\<open>model || default\<close>: an absent and an empty model name give the default.\<close>

definition model_or_default :: "string option \<Rightarrow> string" where
  "model_or_default m =
     (case m of None \<Rightarrow> default_model | Some x \<Rightarrow> if x \<noteq> [] then x else default_model)"

text \<open>
  \<open>Array.isArray(result?.messages) ? result.messages.at(-1)?.content : ""\<close>, then \<open>|| ""\<close>.
\<close>

definition last_content :: "AiResult \<Rightarrow> string" where
  "last_content r =
     (case result_messages r of
        None \<Rightarrow> ''''
      | Some ms \<Rightarrow> if ms = [] then '''' else content (last ms))"

text \<open>\<open>result?.response || (...) || ""\<close>.\<close>

definition assistant_text :: "AiResult option \<Rightarrow> string" where
  "assistant_text result =
     (case result of
        None \<Rightarrow> ''''
      | Some r \<Rightarrow>
          (case response r of
             None \<Rightarrow> last_content r
           | Some t \<Rightarrow> if t \<noteq> [] then t else last_content r))"

subsection \<open>The worker: \<open>POST /api/chat\<close>\<close>

record ChatRequest =
  roomId :: string
  userId :: "string option"
  text_in :: string
  model :: "string option"

text \<open>The parameters of a workflow instance.\<close>

record ChatParams =
  params_roomId :: string
  params_userId :: string
  params_text :: string
  params_model :: "string option"

text \<open>
  The JSON responses of the branch: \<open>{ error }\<close> with its status, and \<open>{ text }\<close> with
  status 200.
\<close>

datatype Response = JsonError nat string | JsonText string

text \<open>
  The handler from the loaded context on (part_001, lines 54 to 86): it builds \<open>convo\<close>,
  calls the engine, appends the answer, and returns the response with the parameters of
  the workflow instance it hands to \<open>ctx.waitUntil\<close>; \<open>now2\<close> is its reading of
  \<open>Date.now()\<close>.
\<close>

definition chat_reply ::
  "Ai \<Rightarrow> int \<Rightarrow> ChatRequest \<Rightarrow> ContextView \<Rightarrow> (Response \<times> ChatParams option) effect" where
  "chat_reply ai now2 body ctx =
     (let convo = systemPreamble @ memory (summary ctx) @ context_messages ctx;
          m = model_or_default (model body)
      in await (ai_run ai m convo None)
          (\<lambda>result.
             (let assistantText = assistant_text result
              in await (call (room_name (roomId body)) (append_msg now2
                          \<lparr>msg_id = None, role = Assistant,
                           content = assistantText, ts = Some now2\<rparr>))
                  (\<lambda>_. return
                     (JsonText assistantText,
                      Some \<lparr>params_roomId = roomId body,
                            params_userId =
                              (case userId body of None \<Rightarrow> ''anon'' | Some u \<Rightarrow> u),
                            params_text = text_in body,
                            params_model = Some m\<rparr>)))))"

text \<open>
  The branch of \<open>fetch\<close> for \<open>POST /api/chat\<close>; \<open>now1\<close> is its first reading of
  \<open>Date.now()\<close>.
\<close>

definition fetch_chat ::
  "Ai \<Rightarrow> int \<Rightarrow> int \<Rightarrow> ChatRequest \<Rightarrow> (Response \<times> ChatParams option) effect" where
  "fetch_chat ai now1 now2 body =
     (if roomId body = [] \<or> text_in body = []
      then return (JsonError 400 ''roomId and text are required'', None)
      else
        (let name = room_name (roomId body)
         in await (call name (append_msg now1
                     \<lparr>msg_id = None, role = User, content = text_in body, ts = Some now1\<rparr>))
             (\<lambda>_. await (call name (getContext 18)) (chat_reply ai now2 body))))"

subsection \<open>The workflow: \<open>ChatWorkflow.run\<close>\<close>

text \<open>
  \<open>step.do(name, callback)\<close>: the sequencer runs the callback, and runs it again when it
  throws, until its retries are spent; then the step throws what the last run threw.
\<close>

fun step_do :: "nat \<Rightarrow> 'a effect \<Rightarrow> 'a effect" where
  "step_do 0 f w = f w"
| "step_do (Suc n) f w =
     (case f w of (Inl e, w') \<Rightarrow> step_do n f w' | (Inr a, w') \<Rightarrow> (Inr a, w'))"

text \<open>The callback of step "llm response" (chat_workflow.ts, lines 33 to 48).\<close>

definition llm_response :: "Ai \<Rightarrow> string \<Rightarrow> ContextView \<Rightarrow> string \<Rightarrow> string effect" where
  "llm_response ai m ctx txt =
     (let convo = systemPreamble @ memory (summary ctx) @ context_messages ctx @
                    [entry User txt]
      in await (ai_run ai m convo None) (\<lambda>result. return (assistant_text result)))"

definition summarize_model :: string where
  "summarize_model = ''@cf/meta/llama-3.1-8b-instruct''"

definition summarize_directive :: string where
  "summarize_directive = ''Summarize the conversation so far in under 200 words as bullet notes of stable facts, preferences, tasks and decisions. Do NOT include sensitive data, secrets, or ephemeral greeter chitchat.''"

text \<open>\<open>res?.response || ""\<close>.\<close>

definition summary_text :: "AiResult option \<Rightarrow> string" where
  "summary_text res =
     (case res of
        None \<Rightarrow> ''''
      | Some r \<Rightarrow> (case response r of None \<Rightarrow> '''' | Some t \<Rightarrow> t))"

text \<open>
  The callback of step "maybe summarize" from the loaded context on (lines 60 to 69): the
  summarization call and the write of its answer.
\<close>

definition summarize_from ::
  "Ai \<Rightarrow> (MemoryMessage list \<Rightarrow> string) \<Rightarrow> string \<Rightarrow> ContextView \<Rightarrow> unit effect" where
  "summarize_from ai stringify name ctxForSumm =
     (let prompt = [entry System summarize_directive,
                    entry User (stringify (context_messages ctxForSumm))]
      in await (ai_run ai summarize_model prompt (Some 200))
          (\<lambda>res. call name (setSummary (summary_text res))))"

text \<open>The callback of step "maybe summarize" (lines 56 to 70).\<close>

definition maybe_summarize ::
  "Ai \<Rightarrow> (MemoryMessage list \<Rightarrow> string) \<Rightarrow> string \<Rightarrow> unit effect" where
  "maybe_summarize ai stringify name =
     await (call name approxChars)
       (\<lambda>totalChars.
          if totalChars < 10000 then return ()
          else await (call name (getContext 40)) (summarize_from ai stringify name))"

text \<open>What \<open>run\<close> returns: \<open>{ ok: true, text: assistantText }\<close>.\<close>

record RunResult =
  ok :: bool
  text_out :: string

text \<open>The end of \<open>run\<close> (lines 55 to 73): step "maybe summarize" and the result.\<close>

definition run_finish ::
  "nat \<Rightarrow> Ai \<Rightarrow> (MemoryMessage list \<Rightarrow> string) \<Rightarrow> string \<Rightarrow> string \<Rightarrow> RunResult effect" where
  "run_finish retries ai stringify name assistantText =
     await (step_do retries (maybe_summarize ai stringify name))
       (\<lambda>_. return \<lparr>ok = True, text_out = assistantText\<rparr>)"

definition run ::
  "nat \<Rightarrow> Ai \<Rightarrow> (MemoryMessage list \<Rightarrow> string) \<Rightarrow> int \<Rightarrow> int \<Rightarrow> ChatParams \<Rightarrow>
   RunResult effect" where
  "run retries ai stringify now1 now2 payload =
     (let txt = params_text payload;
          m = model_or_default (params_model payload);
          name = room_name (params_roomId payload)
      in await (step_do retries
                  (await (call name (append_msg now1
                            \<lparr>msg_id = None, role = User, content = txt, ts = Some now1\<rparr>))
                     (\<lambda>_. return ())))
          (\<lambda>_. await (step_do retries (call name (getContext 18)))
          (\<lambda>ctx. await (step_do retries (llm_response ai m ctx txt))
          (\<lambda>assistantText.
             await (step_do retries
                      (await (call name (append_msg now2
                                \<lparr>msg_id = None, role = Assistant,
                                 content = assistantText, ts = Some now2\<rparr>))
                         (\<lambda>_. return ())))
          (\<lambda>_. run_finish retries ai stringify name assistantText)))))"

subsection \<open>Inputs for the instances\<close>

text \<open>
  Inputs at which the theorems below are instantiated: a namespace whose every room is in
  one given state; a store whose table \<open>messages\<close> holds given rows; a row whose
  content has a given number of characters; an inference engine
  that always throws, one that always answers with a given text, and one that answers
  one given prompt only; and a serializer that stands for \<open>JSON.stringify\<close>.
\<close>

definition every_room :: "ChatSession \<Rightarrow> Namespace" where
  "every_room s name = s"

definition store_with :: "Row list \<Rightarrow> ChatSession" where
  "store_with rs =
     \<lparr>initialized = True,
      messages = Some \<lparr>rows = rs, sqlite_sequence = int (length rs)\<rparr>,
      meta = Some Map.empty\<rparr>"

definition long_row :: "nat \<Rightarrow> Row" where
  "long_row k =
     \<lparr>row_id = 1, row_role = User, row_content = replicate k (CHR ''a''), row_ts = 5\<rparr>"

definition engine_down :: Ai where
  "engine_down m msgs k = Inl (InferenceError ''engine down'')"




section \<open>What the methods do\<close>

subsection \<open>On a state whose tables exist\<close>

lemma ensureSchema_idem: "ensureSchema (ensureSchema s) = ensureSchema s"
  by (simp add: ensureSchema_def)

lemma append_msg_ensure: "append_msg now m (ensureSchema s) = append_msg now m s"
  by (simp add: append_msg_def ensureSchema_idem)

lemma getContext_ensure: "getContext limit (ensureSchema s) = getContext limit s"
  by (simp add: getContext_def ensureSchema_idem)

lemma setSummary_ensure: "setSummary t (ensureSchema s) = setSummary t s"
  by (simp add: setSummary_def ensureSchema_idem)

lemma approxChars_ensure: "approxChars (ensureSchema s) = approxChars s"
  by (simp add: approxChars_def ensureSchema_idem)

lemma exec_insert_one_binding: "exec_insert [b] tbl = Inl wrong_bindings"
  by (simp add: exec_insert_def)

lemma exec_select_recent_array:
  "exec_select_recent [BArray [BInt n]] tbl = Inr (select_recent n tbl)"
  by (simp add: exec_select_recent_def)

lemma exec_upsert_summary_array:
  "exec_upsert_summary [BArray [BText t]] m = Inr (m(''summary'' \<mapsto> Some t))"
  by (simp add: exec_upsert_summary_def)

lemma append_msg_throws:
  assumes "messages (ensureSchema s) = Some tbl"
  shows "append_msg now msg s = (Inl wrong_bindings, ensureSchema s)"
  using assms by (simp add: append_msg_def exec_insert_one_binding)

lemma getContext_throws:
  assumes "messages (ensureSchema s) = Some tbl"
  shows "getContext limit s = (Inl (TypeError ''rows.rows is not a function''), ensureSchema s)"
  using assms by (simp add: getContext_def exec_select_recent_array cursor_rows_def)

lemma cursor_one_sum: "cursor_one (select_sum_length tbl) =
  Inr (if rows tbl = [] then None else Some (total_length tbl))"
  by (simp add: cursor_one_def select_sum_length_def total_length_def)

lemma approxChars_total:
  assumes "messages (ensureSchema s) = Some tbl"
  shows "approxChars s = (Inr (total_length tbl), ensureSchema s)"
  using assms by (simp add: approxChars_def cursor_one_sum) (simp add: total_length_def)

lemma setSummary_writes:
  assumes "meta (ensureSchema s) = Some m"
  shows "setSummary t s =
           (Inr (), (ensureSchema s)\<lparr>meta := Some (m(''summary'' \<mapsto> Some t))\<rparr>)"
  using assms by (simp add: setSummary_def exec_upsert_summary_array)

subsection \<open>On the states that histories reach\<close>

lemma ensureSchema_state_of: "ensureSchema (state_of ops) = state_of ops"
  by (simp add: ensureSchema_def state_of_def)

lemma last_set_snoc_set: "last_set (ops @ [SetSummary t]) = Some t"
  by (induction ops rule: last_set.induct) auto

lemma last_set_snoc_other: "(\<And>t. x \<noteq> SetSummary t) \<Longrightarrow> last_set (ops @ [x]) = last_set ops"
  by (induction ops rule: last_set.induct) (cases x; auto)+

lemma state_of_snoc_other: "(\<And>t. x \<noteq> SetSummary t) \<Longrightarrow> state_of (ops @ [x]) = state_of ops"
  by (simp add: state_of_def last_set_snoc_other)

lemma messages_state_of: "messages (state_of ops) = Some \<lparr>rows = [], sqlite_sequence = 0\<rparr>"
  by (simp add: state_of_def)

lemma append_msg_at:
  assumes "ensureSchema s = state_of pre"
  shows "append_msg now msg s = (Inl wrong_bindings, state_of pre)"
  using append_msg_throws [of s _ now msg] assms by (simp add: messages_state_of)

lemma getContext_at:
  assumes "ensureSchema s = state_of pre"
  shows "getContext limit s = (Inl (TypeError ''rows.rows is not a function''), state_of pre)"
  using getContext_throws [of s _ limit] assms by (simp add: messages_state_of)

lemma approxChars_at:
  assumes "ensureSchema s = state_of pre"
  shows "approxChars s = (Inr 0, state_of pre)"
  using approxChars_total [of s _] assms by (simp add: messages_state_of total_length_def)

lemma setSummary_at:
  assumes "ensureSchema s = state_of pre"
  shows "setSummary t s = (Inr (), state_of (pre @ [SetSummary t]))"
proof -
  have "meta (ensureSchema s) =
          Some (case last_set pre of None \<Rightarrow> Map.empty | Some t \<Rightarrow> [''summary'' \<mapsto> Some t])"
    by (simp add: assms state_of_def)
  then show ?thesis
    by (simp add: setSummary_writes assms state_of_def last_set_snoc_set split: option.splits)
qed

lemma run_ops_snoc: "run_ops (ops @ [x]) s = exec x (run_ops ops s)"
  by (simp add: run_ops_def)

lemma ensureSchema_restart:
  "ensureSchema s = state_of ops \<Longrightarrow> ensureSchema (restart s) = state_of ops"
  by (cases "initialized s")
     (auto simp: ensureSchema_def restart_def state_of_def create_messages_def create_meta_def)

lemma exec_state_of:
  assumes "ensureSchema s = state_of ops"
  shows "ensureSchema (exec x s) = state_of (ops @ [x])"
proof (cases x)
  case (Append now m)
  then show ?thesis
    by (simp add: append_msg_at [OF assms] ensureSchema_state_of state_of_snoc_other)
next
  case (GetContext limit)
  then show ?thesis
    by (simp add: getContext_at [OF assms] ensureSchema_state_of state_of_snoc_other)
next
  case (SetSummary t)
  then show ?thesis
    by (simp add: setSummary_at [OF assms] ensureSchema_state_of)
next
  case ApproxChars
  then show ?thesis
    by (simp add: approxChars_at [OF assms] ensureSchema_state_of state_of_snoc_other)
next
  case Restart
  then show ?thesis
    using assms by (simp add: ensureSchema_restart state_of_snoc_other)
qed

lemma ensureSchema_fresh: "ensureSchema fresh = state_of []"
  by (simp add: ensureSchema_def fresh_def state_of_def create_messages_def create_meta_def)

lemma ensureSchema_run_ops: "ensureSchema (run_ops ops fresh) = state_of ops"
proof (induction ops rule: rev_induct)
  case Nil
  show ?case by (simp add: run_ops_def ensureSchema_fresh)
next
  case (snoc x ops)
  then show ?case by (simp add: run_ops_snoc exec_state_of)
qed

lemma message_log_ensure: "message_log (ensureSchema s) = message_log s"
  by (simp add: message_log_def ensureSchema_def create_messages_def split: option.splits)

lemma message_log_run_ops: "message_log (run_ops ops fresh) = []"
  using message_log_ensure [of "run_ops ops fresh"]
  by (simp add: ensureSchema_run_ops message_log_def state_of_def)

lemma append_replies_from:
  "ensureSchema s = state_of pre \<Longrightarrow>
   append_replies (replies ops s) = map (\<lambda>a. Inl wrong_bindings) (appended ops)"
proof (induction ops arbitrary: s pre)
  case Nil
  then show ?case by simp
next
  case (Cons x ops)
  have next_state: "ensureSchema (exec x s) = state_of (pre @ [x])"
    using Cons.prems by (rule exec_state_of)
  note IH = Cons.IH [OF next_state]
  show ?case
  proof (cases x)
    case (Append now m)
    then show ?thesis
      using IH by (simp add: append_msg_at [OF Cons.prems])
  next
    case (GetContext limit)
    then show ?thesis using IH by simp
  next
    case (SetSummary t)
    then show ?thesis using IH by simp
  next
    case ApproxChars
    then show ?thesis using IH by simp
  next
    case Restart
    then show ?thesis using IH by simp
  qed
qed

lemma appended_append_all: "appended (append_all ms) = ms"
  by (induction ms) (simp_all add: append_all_def)

lemma last_set_never: "(\<forall>t. SetSummary t \<notin> set ops) \<Longrightarrow> last_set ops = None"
  by (induction ops rule: last_set.induct) auto

lemma setSummary_twice: "setSummary b (snd (setSummary a s)) = setSummary b s"
  by (cases "initialized s"; cases "meta s")
     (simp_all add: setSummary_def ensureSchema_def create_meta_def Let_def
        exec_upsert_summary_array)

lemma message_log_setSummary: "message_log (snd (setSummary t s)) = message_log s"
  by (cases "initialized s"; cases "messages s"; cases "meta s")
     (simp_all add: setSummary_def ensureSchema_def create_meta_def create_messages_def
        message_log_def Let_def exec_upsert_summary_array)

lemma message_log_exec: "message_log (exec x s) = message_log s"
  by (cases x; cases "initialized s"; cases "messages s"; cases "meta s")
     (simp_all add: append_msg_def getContext_def setSummary_def approxChars_def restart_def
        ensureSchema_def create_messages_def create_meta_def message_log_def Let_def
        exec_insert_one_binding exec_select_recent_array exec_upsert_summary_array
        cursor_rows_def cursor_one_sum)

lemma message_log_run_ops_any: "message_log (run_ops ops s) = message_log s"
  by (induction ops rule: rev_induct) (simp_all add: run_ops_snoc message_log_exec, simp add: run_ops_def)

section \<open>What the worker and the workflow do\<close>


lemma call_append:
  assumes "messages (ensureSchema (w name)) = Some tbl"
  shows "call name (append_msg now msg) w =
           (Inl wrong_bindings, w(name := ensureSchema (w name)))"
  by (simp add: call_def append_msg_throws [OF assms])





lemma step_do_throws:
  "f w = (Inl e, w') \<Longrightarrow> f w' = (Inl e, w') \<Longrightarrow> step_do n f w = (Inl e, w')"
proof (induction n arbitrary: w)
  case 0
  then show ?case by simp
next
  case (Suc n)
  have "step_do n f w' = (Inl e, w')"
    using Suc.prems(2) by (rule Suc.IH) (rule Suc.prems(2))
  then show ?case using Suc.prems(1) by simp
qed

lemma ensured_table:
  "messages (ensureSchema (w name)) = Some tbl \<Longrightarrow>
   messages (ensureSchema ((w(name := ensureSchema (w name))) name)) = Some tbl"
  by (simp add: ensureSchema_idem)





lemma fetch_chat_throws:
  assumes "roomId body \<noteq> []" and "text_in body \<noteq> []"
    and "messages (ensureSchema (w (room_name (roomId body)))) = Some tbl"
  shows "fetch_chat ai now1 now2 body w =
           (Inl wrong_bindings,
            w(room_name (roomId body) := ensureSchema (w (room_name (roomId body)))))"
  using assms(1,2)
  by (simp add: fetch_chat_def Let_def await_def call_append [where w = w and name = "room_name (roomId body)", OF assms(3)])

lemma step_append_throws:
  assumes "messages (ensureSchema (w name)) = Some tbl"
  shows "step_do retries (await (call name (append_msg now msg)) (\<lambda>_. return ())) w =
           (Inl wrong_bindings, w(name := ensureSchema (w name)))"
proof (rule step_do_throws)
  show "await (call name (append_msg now msg)) (\<lambda>_. return ()) w =
          (Inl wrong_bindings, w(name := ensureSchema (w name)))"
    by (simp add: await_def call_append [where w = w and name = name, OF assms])
  show "await (call name (append_msg now msg)) (\<lambda>_. return ()) (w(name := ensureSchema (w name))) =
          (Inl wrong_bindings, w(name := ensureSchema (w name)))"
    by (simp add: await_def ensureSchema_idem
          call_append [where w = "w(name := ensureSchema (w name))" and name = name,
            OF ensured_table [where w = w and name = name, OF assms]])
qed

lemma run_throws:
  assumes "messages (ensureSchema (w (room_name (params_roomId payload)))) = Some tbl"
  shows "run retries ai stringify now1 now2 payload w =
           (Inl wrong_bindings,
            w(room_name (params_roomId payload) :=
                ensureSchema (w (room_name (params_roomId payload)))))"
  by (simp add: run_def Let_def await_def [of "step_do _ _"] step_append_throws [where w = w and name = "room_name (params_roomId payload)", OF assms])




lemma run_finish_returns:
  assumes "step_do retries (maybe_summarize ai stringify name) w = (Inr u, w')"
  shows "run_finish retries ai stringify name txt w = (Inr \<lparr>ok = True, text_out = txt\<rparr>, w')"
  using assms by (simp add: run_finish_def await_def return_def)

section \<open>The claims\<close>

lemmas store_eval =
  run_ops_def fresh_def append_msg_def getContext_def setSummary_def approxChars_def
  ensureSchema_def create_messages_def create_meta_def insert_message_def select_recent_def
  sql_limit_def row_message_def select_sum_length_def message_log_def entry_def restart_def
  exec_insert_def exec_select_recent_def exec_upsert_summary_def cursor_one_def
  cursor_rows_def read_summary_def select_summary_def summary_row_def sql_length_def
  wrong_bindings_def store_with_def long_row_def Let_def


subsection \<open>C1: the order of the prompt\<close>



subsection \<open>C2: the ids that append assigns\<close>

text \<open>
  C2. On the platform \<open>append\<close> assigns no id. In every history of calls on a new store
  (appends with any other calls and restarts between them) every \<open>append\<close> throws
  \<open>Wrong number of parameter bindings for SQL query.\<close>: the statement has three
  placeholders and \<open>exec\<close> is given one binding, the array. No operation of the store
  adds a row to table \<open>messages\<close> or removes one. The first \<open>append\<close> on a new store
  leaves the two empty tables and throws.
\<close>

theorem append_throws_wrong_bindings:
  "append_replies (replies ops fresh) = map (\<lambda>a. Inl wrong_bindings) (appended ops)
   \<and> message_log (run_ops ops s) = message_log s
   \<and> append_msg 5 \<lparr>msg_id = None, role = User, content = ''hi'', ts = Some 5\<rparr> fresh =
       (Inl (SqlError ''Wrong number of parameter bindings for SQL query.''),
        \<lparr>initialized = True,
         messages = Some \<lparr>rows = [], sqlite_sequence = 0\<rparr>,
         meta = Some Map.empty\<rparr>)"
proof -
  have "append_msg 5 \<lparr>msg_id = None, role = User, content = ''hi'', ts = Some 5\<rparr> fresh =
          (Inl wrong_bindings, state_of [])"
    by (simp add: append_msg_at [OF ensureSchema_fresh])
  then show ?thesis
    using append_replies_from [OF ensureSchema_fresh, of ops]
    by (simp add: message_log_run_ops_any wrong_bindings_def state_of_def)
qed

subsection \<open>C3: the threshold of step "maybe summarize"\<close>



subsection \<open>C4: what getContext returns\<close>

text \<open>
  C4. In every state whose table \<open>messages\<close> exists, and so in every state that a
  history of calls on a new store reaches, \<open>getContext(limit)\<close> returns no messages and
  no summary for any limit: it throws \<open>TypeError: rows.rows is not a function\<close>, since
  the cursor that \<open>exec\<close> returns has no method \<open>rows\<close>.
\<close>

theorem getContext_throws_type_error:
  assumes "messages (ensureSchema s) \<noteq> None"
  shows "getContext limit s =
           (Inl (TypeError ''rows.rows is not a function''), ensureSchema s)
       \<and> fst (getContext limit (run_ops ops fresh)) =
           Inl (TypeError ''rows.rows is not a function'')"
proof -
  obtain tbl where tbl: "messages (ensureSchema s) = Some tbl"
    using assms by auto
  show ?thesis
    by (simp add: getContext_throws [OF tbl] getContext_at [OF ensureSchema_run_ops])
qed

text \<open>
  C4 on a table with two rows and limit 1, and after one call of \<open>append\<close> on a new
  store.
\<close>

theorem getContext_throws_type_error_witness:
  "messages (ensureSchema (store_with
       [\<lparr>row_id = 1, row_role = User, row_content = ''hi'', row_ts = 5\<rparr>,
        \<lparr>row_id = 2, row_role = Assistant, row_content = ''hello'', row_ts = 6\<rparr>])) \<noteq> None
   \<and> fst (getContext 1 (store_with
       [\<lparr>row_id = 1, row_role = User, row_content = ''hi'', row_ts = 5\<rparr>,
        \<lparr>row_id = 2, row_role = Assistant, row_content = ''hello'', row_ts = 6\<rparr>])) =
       Inl (TypeError ''rows.rows is not a function'')
   \<and> fst (getContext 18 (run_ops [Append 5 (entry User ''hi'')] fresh)) =
       Inl (TypeError ''rows.rows is not a function'')"
  using getContext_throws_type_error
    [of "store_with
       [\<lparr>row_id = 1, row_role = User, row_content = ''hi'', row_ts = 5\<rparr>,
        \<lparr>row_id = 2, row_role = Assistant, row_content = ''hello'', row_ts = 6\<rparr>]"
      1 "[Append 5 (entry User ''hi'')]"]
    getContext_throws_type_error
    [of "store_with
       [\<lparr>row_id = 1, row_role = User, row_content = ''hi'', row_ts = 5\<rparr>,
        \<lparr>row_id = 2, row_role = Assistant, row_content = ''hello'', row_ts = 6\<rparr>]"
      18 "[Append 5 (entry User ''hi'')]"]
  by (simp add: store_with_def ensureSchema_def)

subsection \<open>C5: a failure of the summarization step\<close>




subsection \<open>C6: an inference error in a synchronous turn\<close>

text \<open>
  C6. For a request with a room and a text, on a room whose table exists (a new room
  too), the \<open>/api/chat\<close> handler throws
  \<open>Wrong number of parameter bindings for SQL query.\<close> from its first \<open>append\<close>,
  whatever the engine would do: the engine is not called, and the room's log is what it
  was, so the user message is not stored. From a loaded context on, an engine that
  throws on the prompt makes the handler throw the same error with every room unchanged.
\<close>

theorem fetch_chat_throws_before_inference:
  assumes "roomId body \<noteq> []" and "text_in body \<noteq> []"
    and "messages (ensureSchema (w (room_name (roomId body)))) \<noteq> None"
  shows "fetch_chat ai now1 now2 body w =
           (Inl (SqlError ''Wrong number of parameter bindings for SQL query.''),
            w(room_name (roomId body) := ensureSchema (w (room_name (roomId body)))))
       \<and> message_log (snd (fetch_chat ai now1 now2 body w) (room_name (roomId body))) =
           message_log (w (room_name (roomId body)))
       \<and> (ai (model_or_default (model body))
             (systemPreamble @ memory (summary ctx) @ context_messages ctx) None = Inl e \<longrightarrow>
          chat_reply ai now2 body ctx w = (Inl e, w))"
proof -
  obtain tbl where tbl: "messages (ensureSchema (w (room_name (roomId body)))) = Some tbl"
    using assms(3) by auto
  have thrown: "fetch_chat ai now1 now2 body w =
      (Inl wrong_bindings,
       w(room_name (roomId body) := ensureSchema (w (room_name (roomId body)))))"
    using assms(1,2) tbl by (rule fetch_chat_throws)
  have "ai (model_or_default (model body))
          (systemPreamble @ memory (summary ctx) @ context_messages ctx) None = Inl e \<Longrightarrow>
        chat_reply ai now2 body ctx w = (Inl e, w)"
    by (simp add: chat_reply_def Let_def await_def ai_run_def)
  then show ?thesis
    by (simp add: thrown wrong_bindings_def message_log_ensure)
qed

text \<open>
  C6 on a new room, the request \<open>{ roomId: "demo", text: "hi" }\<close> and an engine that is
  down.
\<close>

theorem fetch_chat_throws_before_inference_witness:
  "roomId \<lparr>roomId = ''demo'', userId = None, text_in = ''hi'', model = None\<rparr> \<noteq> []
   \<and> text_in \<lparr>roomId = ''demo'', userId = None, text_in = ''hi'', model = None\<rparr> \<noteq> []
   \<and> messages (ensureSchema (every_room fresh (room_name ''demo''))) \<noteq> None
   \<and> fst (fetch_chat engine_down 5 6
            \<lparr>roomId = ''demo'', userId = None, text_in = ''hi'', model = None\<rparr>
            (every_room fresh)) =
       Inl (SqlError ''Wrong number of parameter bindings for SQL query.'')
   \<and> message_log
        (snd (fetch_chat engine_down 5 6
                \<lparr>roomId = ''demo'', userId = None, text_in = ''hi'', model = None\<rparr>
                (every_room fresh)) (room_name ''demo'')) = []
   \<and> engine_down
        (model_or_default
           (model \<lparr>roomId = ''demo'', userId = None, text_in = ''hi'', model = None\<rparr>))
        (systemPreamble @
         memory (summary \<lparr>summary = [], context_messages = []\<rparr>) @
         context_messages \<lparr>summary = [], context_messages = []\<rparr>) None =
       Inl (InferenceError ''engine down'')
   \<and> chat_reply engine_down 6
        \<lparr>roomId = ''demo'', userId = None, text_in = ''hi'', model = None\<rparr>
        \<lparr>summary = [], context_messages = []\<rparr> (every_room fresh) =
       (Inl (InferenceError ''engine down''), every_room fresh)"
proof -
  have t: "messages (ensureSchema (every_room fresh
      (room_name (roomId \<lparr>roomId = ''demo'', userId = None, text_in = ''hi'', model = None\<rparr>)))) \<noteq> None"
    by (simp add: every_room_def fresh_def ensureSchema_def create_messages_def)
  have l: "message_log (every_room fresh (room_name ''demo'')) = []"
    by (simp add: every_room_def fresh_def message_log_def)
  have d: "\<And>m p k. engine_down m p k = Inl (InferenceError ''engine down'')"
    by (simp add: engine_down_def)
  note r = fetch_chat_throws_before_inference
    [where body = "\<lparr>roomId = ''demo'', userId = None, text_in = ''hi'', model = None\<rparr>"
       and w = "every_room fresh" and ai = engine_down and ?now1.0 = 5 and ?now2.0 = 6
       and ctx = "\<lparr>summary = [], context_messages = []\<rparr>"
       and e = "InferenceError ''engine down''", OF _ _ t]
  from r l d t show ?thesis by (simp add: message_log_ensure)
qed

subsection \<open>C7: setSummary\<close>

text \<open>
  C7. \<open>setSummary\<close> is idempotent: the second of two calls with the same text returns
  what the first returned and leaves the state the first left. The last writer wins:
  after \<open>setSummary(a)\<close>, \<open>setSummary(b)\<close> returns and leaves what it does without the
  earlier call. The message log is unchanged by every call. After any history on a new
  store the call succeeds and the summary row holds the text.
\<close>

theorem setSummary_idempotent_last_writer:
  "setSummary t (snd (setSummary t s)) = setSummary t s
   \<and> setSummary b (snd (setSummary a s)) = setSummary b s
   \<and> message_log (snd (setSummary t s)) = message_log s
   \<and> fst (setSummary t (run_ops ops fresh)) = Inr ()
   \<and> summary_row (snd (setSummary t (run_ops ops fresh))) = Some (Some t)"
proof -
  have "setSummary t (run_ops ops fresh) = (Inr (), state_of (ops @ [SetSummary t]))"
    by (rule setSummary_at) (rule ensureSchema_run_ops)
  then show ?thesis
    by (simp add: setSummary_twice message_log_setSummary summary_row_def state_of_def
          last_set_snoc_set)
qed

subsection \<open>C8: append, then getContext\<close>

text \<open>
  C8. On a new store, each of the calls \<open>append(m1)\<close>, ..., \<open>append(mk)\<close> throws
  \<open>Wrong number of parameter bindings for SQL query.\<close>; the log is empty after them;
  and \<open>getContext(k)\<close> then throws \<open>TypeError: rows.rows is not a function\<close>: no
  message comes back.
\<close>

theorem append_then_getContext_throw:
  "append_replies (replies (append_all ms) fresh) = map (\<lambda>a. Inl wrong_bindings) ms
   \<and> message_log (run_ops (append_all ms) fresh) = []
   \<and> fst (getContext (int (length ms)) (run_ops (append_all ms) fresh)) =
       Inl (TypeError ''rows.rows is not a function'')"
  using append_replies_from [OF ensureSchema_fresh, of "append_all ms"]
  by (simp add: appended_append_all message_log_run_ops getContext_at [OF ensureSchema_run_ops])

subsection \<open>C9: the summary of a conversation that never had one\<close>

text \<open>
  C9. After a history without \<open>setSummary\<close>, \<open>getContext(limit)\<close> returns no summary: it
  throws the \<open>TypeError\<close> of \<open>rows.rows()\<close> before the summary is read. The summary row
  is absent, and on the table without that row the summary read
  \<open>summaryRow.one()?.v ?? ""\<close> throws too: \<open>one()\<close> throws on a result without rows, so
  \<open>?? ""\<close> is not reached.
\<close>

theorem getContext_throws_when_never_set:
  assumes "\<forall>t. SetSummary t \<notin> set ops"
  shows "fst (getContext limit (run_ops ops fresh)) =
           Inl (TypeError ''rows.rows is not a function'')
       \<and> summary_row (ensureSchema (run_ops ops fresh)) = None
       \<and> (\<exists>m. meta (ensureSchema (run_ops ops fresh)) = Some m
              \<and> read_summary m =
                  Inl (SqlError
                    ''Expected exactly one result from SQL query, but got no results.''))"
  using assms
  by (simp add: getContext_at [OF ensureSchema_run_ops] ensureSchema_run_ops state_of_def
        summary_row_def last_set_never read_summary_def select_summary_def cursor_one_def)

text \<open>C9 after an \<open>append\<close>, a restart and \<open>approxChars\<close>, with limit 18.\<close>

theorem getContext_throws_when_never_set_witness:
  "(\<forall>t. SetSummary t \<notin> set [Append 5 (entry User ''a''), Restart, ApproxChars])
   \<and> fst (getContext 18 (run_ops [Append 5 (entry User ''a''), Restart, ApproxChars] fresh)) =
       Inl (TypeError ''rows.rows is not a function'')
   \<and> read_summary Map.empty =
       Inl (SqlError ''Expected exactly one result from SQL query, but got no results.'')"
  using getContext_throws_when_never_set
    [of "[Append 5 (entry User ''a''), Restart, ApproxChars]" 18]
  by (simp add: store_eval)

subsection \<open>C10: approxChars\<close>




end
